theory Spec2Isabelle
  imports Main
begin

section \<open>Python values used by oracle\_user.py\<close>

text \<open>
  Every optional module parameter and every column of the catalog row is a Python value
  that is either \<open>None\<close> or a \<open>str\<close>: a \<open>string option\<close>. The source tests such values
  for truth (\<open>if password\<close>, \<open>if sql\<close>): \<open>None\<close> and the empty string are false.
\<close>

definition truthy :: "string option \<Rightarrow> bool" where
  "truthy v = (case v of None \<Rightarrow> False | Some s \<Rightarrow> s \<noteq> [])"

text \<open>What \<open>'{x}'.format(x=v)\<close> renders: the string itself, or the text \<open>None\<close>.\<close>

definition py_str :: "string option \<Rightarrow> string" where
  "py_str v = (case v of None \<Rightarrow> ''None'' | Some s \<Rightarrow> s)"

text \<open>
  \<open>str.upper\<close> on ASCII text: the letters a to z (codes 97 to 122) move down by 32, every
  other character stays.
\<close>

definition upper_char :: "char \<Rightarrow> char" where
  "upper_char c =
     (if 97 \<le> (of_char c :: nat) \<and> (of_char c :: nat) \<le> 122
      then char_of ((of_char c :: nat) - 32) else c)"

definition upper :: "string \<Rightarrow> string" where
  "upper s = map upper_char s"

text \<open>\<open>s.startswith(p)\<close> and the substring test \<open>x in s\<close> of two strings.\<close>

fun starts_with :: "string \<Rightarrow> string \<Rightarrow> bool" where
  "starts_with s [] = True"
| "starts_with [] (p # ps) = False"
| "starts_with (c # cs) (p # ps) = (c = p \<and> starts_with cs ps)"

fun contains :: "string \<Rightarrow> string \<Rightarrow> bool" where
  "contains [] x = (x = [])"
| "contains (c # cs) x = (starts_with (c # cs) x \<or> contains cs x)"

text \<open>
  \<open>mapAccountStatus\<close> returns a list on one path and a string on the other, and \<open>ensure\<close>
  applies \<open>not in\<close> to the result: list membership for the list, the substring test for
  the string.
\<close>

datatype py_container = PyList "string list" | PyStr string

definition py_in :: "string \<Rightarrow> py_container \<Rightarrow> bool" where
  "py_in x c = (case c of PyList xs \<Rightarrow> x \<in> set xs | PyStr s \<Rightarrow> contains s x)"

definition squote :: string where
  "squote = [CHR 0x27]"

definition dquote :: string where
  "dquote = [CHR 0x22]"

section \<open>Data\<close>

text \<open>\<open>module.params\<close>: \<open>name\<close> is required, \<open>state\<close> has a default, the rest may be \<open>None\<close>.\<close>

record params =
  name :: string
  password :: "string option"
  state :: string
  default_tablespace :: "string option"
  temporary_tablespace :: "string option"

text \<open>The dictionary \<open>getUser\<close> builds from a row; a missing account is \<open>None\<close>.\<close>

record user =
  user_name :: string
  user_default_tablespace :: "string option"
  user_temporary_tablespace :: "string option"
  user_password :: "string option"
  user_account_status :: "string option"

text \<open>
  The row that \<open>cur.fetchone()\<close> returns: default tablespace, temporary tablespace,
  password, account status, in the order of the select list.
\<close>

type_synonym row = "string option \<times> string option \<times> string option \<times> string option"

text \<open>
  The database driver is outside the repository. It is a parameter: a lookup of the row of
  an account and the execution of one statement, either of which may raise
  \<open>cx_Oracle.DatabaseError\<close> with a message (\<open>Inl\<close>). A connection carries the database
  and the list of the calls made on it so far.
\<close>

record 'db driver =
  fetch_user :: "'db \<Rightarrow> string \<Rightarrow> string + row option"
  run_statement :: "'db \<Rightarrow> string \<Rightarrow> string + 'db"

datatype event = Query string | Execute string

record 'db conn =
  db :: 'db
  trace :: "event list"

text \<open>
  \<open>module.fail\_json(msg=...)\<close> would end the run with its message (\<open>FailJson\<close>). The two
  handlers that call it, in \<open>executeSQL\<close> and in \<open>getUser\<close>, reach it through the name
  \<open>module\<close>. That name is a local variable of \<open>main\<close> and a parameter of \<open>ensure\<close>; it is
  neither a parameter of \<open>executeSQL\<close> or \<open>getUser\<close> nor bound at module level. Looking it
  up inside a handler raises \<open>NameError\<close> before the message is formatted, and nothing
  catches that exception: the run ends with it.
\<close>

datatype error = FailJson string | NameError string

fun executed :: "event list \<Rightarrow> string list" where
  "executed [] = []"
| "executed (Query n # es) = executed es"
| "executed (Execute s # es) = s # executed es"

section \<open>The functions of the module\<close>

definition executeSQL :: "'db driver \<Rightarrow> 'db conn \<Rightarrow> string \<Rightarrow> (error + unit) \<times> 'db conn" where
  "executeSQL drv con sql =
     (case run_statement drv (db con) sql of
        Inl e \<Rightarrow> (Inl (NameError ''module''), con\<lparr>trace := trace con @ [Execute sql]\<rparr>)
      | Inr d \<Rightarrow> (Inr (), con\<lparr>db := d, trace := trace con @ [Execute sql]\<rparr>))"

definition user_of_row :: "string \<Rightarrow> row option \<Rightarrow> user option" where
  "user_of_row nm r =
     (case r of
        None \<Rightarrow> None
      | Some (r0, r1, r2, r3) \<Rightarrow>
          Some \<lparr>user_name = nm, user_default_tablespace = r0, user_temporary_tablespace = r1,
                user_password = r2, user_account_status = r3\<rparr>)"

definition getUser :: "'db driver \<Rightarrow> 'db conn \<Rightarrow> string \<Rightarrow> (error + user option) \<times> 'db conn" where
  "getUser drv con nm =
     (case fetch_user drv (db con) nm of
        Inl e \<Rightarrow> (Inl (NameError ''module''), con\<lparr>trace := trace con @ [Query nm]\<rparr>)
      | Inr r \<Rightarrow> (Inr (user_of_row nm r), con\<lparr>trace := trace con @ [Query nm]\<rparr>))"

definition getCreateUserSQL ::
  "string \<Rightarrow> string option \<Rightarrow> string option \<Rightarrow> string option \<Rightarrow> string option \<Rightarrow> string" where
  "getCreateUserSQL nm userpass dts tts account_status =
     (let sql0 = ''CREATE USER '' @ nm @ '' IDENTIFIED BY VALUES '' @ squote @ py_str userpass @ squote;
          sql1 = (if truthy dts then sql0 @ '' DEFAULT TABLESPACE '' @ py_str dts else sql0);
          sql2 = (if truthy tts then sql1 @ '' TEMPORARY TABLESPACE '' @ py_str tts else sql1);
          sql3 = (if truthy account_status then sql2 @ '' ACCOUNT '' @ py_str account_status else sql2)
      in sql3)"

definition getDropUserSQL :: "string \<Rightarrow> string" where
  "getDropUserSQL nm = ''DROP USER '' @ dquote @ nm @ dquote @ '' CASCADE''"

text \<open>\<open>getUpdateUserSQL\<close> takes \<open>account_status\<close> and never reads it.\<close>

definition getUpdateUserSQL ::
  "string \<Rightarrow> string option \<Rightarrow> string option \<Rightarrow> string option \<Rightarrow> string option \<Rightarrow> string" where
  "getUpdateUserSQL nm userpass dts tts account_status =
     (let sql0 = ''ALTER USER '' @ nm;
          sql1 = (if truthy userpass
                  then sql0 @ '' IDENTIFIED BY VALUES '' @ squote @ py_str userpass @ squote else sql0);
          sql2 = (if truthy dts then sql1 @ '' DEFAULT TABLESPACE '' @ py_str dts else sql1);
          sql3 = (if truthy tts then sql2 @ '' TEMPORARY TABLESPACE '' @ py_str tts else sql2)
      in sql3)"

definition mapState :: "string \<Rightarrow> string" where
  "mapState st = (if py_in st (PyList [''present'', ''unlocked'']) then ''UNLOCK'' else ''LOCK'')"

definition mapAccountStatus :: "string option \<Rightarrow> py_container" where
  "mapAccountStatus account_status =
     (if account_status = Some ''OPEN'' then PyList [''present'', ''unlocked''] else PyStr ''locked'')"

text \<open>
  The statement \<open>ensure\<close> chooses (the value of its variable \<open>sql\<close> when it reaches
  \<open>if sql\<close>), from the parameters, the upper-cased name and the account read. In the
  branch of an existing account the source has one \<open>if\<close>/\<open>elif\<close> and then three separate
  \<open>if\<close> statements, each of which assigns \<open>sql\<close> again.
\<close>

definition ensure_sql :: "params \<Rightarrow> string \<Rightarrow> user option \<Rightarrow> string option" where
  "ensure_sql p nm usr =
     (case usr of
        None \<Rightarrow>
          (if state p \<noteq> ''absent''
           then Some (getCreateUserSQL nm (password p) (default_tablespace p)
                        (temporary_tablespace p) (Some (mapState (state p))))
           else None)
      | Some u \<Rightarrow>
          (let sql1 = (if state p = ''absent'' then Some (getDropUserSQL nm)
                       else if \<not> py_in (state p) (mapAccountStatus (user_account_status u))
                       then Some (getUpdateUserSQL nm None None None (Some (mapState (state p))))
                       else None);
               sql2 = (if truthy (password p) \<and> user_password u \<noteq> password p
                       then Some (getUpdateUserSQL nm (password p) None None None) else sql1);
               sql3 = (if truthy (default_tablespace p)
                          \<and> user_default_tablespace u \<noteq> default_tablespace p
                       then Some (getUpdateUserSQL nm None (default_tablespace p) None None)
                       else sql2);
               sql4 = (if truthy (temporary_tablespace p)
                          \<and> user_temporary_tablespace u \<noteq> temporary_tablespace p
                       then Some (getUpdateUserSQL nm None None (temporary_tablespace p) None)
                       else sql3)
           in sql4))"

text \<open>The last read of \<open>ensure\<close> and its return value.\<close>

definition ensure_return ::
  "'db driver \<Rightarrow> 'db conn \<Rightarrow> string \<Rightarrow> bool \<Rightarrow> (error + bool \<times> user option) \<times> 'db conn" where
  "ensure_return drv con nm changed =
     (case getUser drv con nm of
        (Inl e, c) \<Rightarrow> (Inl e, c)
      | (Inr u, c) \<Rightarrow> (Inr (changed, u), c))"

definition ensure ::
  "'db driver \<Rightarrow> params \<Rightarrow> 'db conn \<Rightarrow> (error + bool \<times> user option) \<times> 'db conn" where
  "ensure drv p con =
     (let nm = upper (name p) in
      case getUser drv con nm of
        (Inl e, c1) \<Rightarrow> (Inl e, c1)
      | (Inr usr, c1) \<Rightarrow>
          (let sql = ensure_sql p nm usr in
           if truthy sql then
             (case executeSQL drv c1 (py_str sql) of
                (Inl e, c2) \<Rightarrow> (Inl e, c2)
              | (Inr _, c2) \<Rightarrow> ensure_return drv c2 nm True)
           else ensure_return drv c1 nm False))"

text \<open>The three kinds of statement the module builds.\<close>

definition is_create :: "string \<Rightarrow> bool" where
  "is_create s = starts_with s ''CREATE USER ''"

definition is_alter :: "string \<Rightarrow> bool" where
  "is_alter s = starts_with s ''ALTER USER ''"

definition is_drop :: "string \<Rightarrow> bool" where
  "is_drop s = starts_with s ''DROP USER ''"

section \<open>Stand-in databases for concrete runs\<close>

text \<open>
  A catalog holding the row of at most one account; it answers every lookup with that row.
  One driver accepts every statement and leaves the catalog as it is, the other refuses
  every statement.
\<close>

definition single_account :: "row option \<Rightarrow> string \<Rightarrow> string + row option" where
  "single_account d n = Inr d"

definition accept_statement :: "row option \<Rightarrow> string \<Rightarrow> string + row option" where
  "accept_statement d s = Inr d"

definition reject_statement :: "row option \<Rightarrow> string \<Rightarrow> string + row option" where
  "reject_statement d s = Inl ''ORA-01031: insufficient privileges''"

definition idle_driver :: "row option driver" where
  "idle_driver = \<lparr>fetch_user = single_account, run_statement = accept_statement\<rparr>"

definition refusing_driver :: "row option driver" where
  "refusing_driver = \<lparr>fetch_user = single_account, run_statement = reject_statement\<rparr>"

text \<open>
  A third driver applies the two tablespace statements to the row of the account named
  \<open>nm\<close>: \<open>ALTER USER nm DEFAULT TABLESPACE t\<close> stores \<open>t\<close> as the default tablespace,
  \<open>ALTER USER nm TEMPORARY TABLESPACE t\<close> stores it as the temporary one. It refuses every
  other statement, and every statement when the catalog is empty.
\<close>

fun strip_prefix :: "string \<Rightarrow> string \<Rightarrow> string option" where
  "strip_prefix [] s = Some s"
| "strip_prefix (c # cs) [] = None"
| "strip_prefix (c # cs) (x # xs) = (if c = x then strip_prefix cs xs else None)"

definition apply_statement :: "string \<Rightarrow> row option \<Rightarrow> string \<Rightarrow> string + row option" where
  "apply_statement nm d sql =
     (case d of
        None \<Rightarrow> Inl ''ORA-01918: user does not exist''
      | Some (r0, r1, r2, r3) \<Rightarrow>
          (case strip_prefix (''ALTER USER '' @ nm @ '' DEFAULT TABLESPACE '') sql of
             Some t \<Rightarrow> Inr (Some (Some t, r1, r2, r3))
           | None \<Rightarrow>
               (case strip_prefix (''ALTER USER '' @ nm @ '' TEMPORARY TABLESPACE '') sql of
                  Some t \<Rightarrow> Inr (Some (r0, Some t, r2, r3))
                | None \<Rightarrow> Inl ''ORA-00900: invalid SQL statement'')))"

definition applying_driver :: "string \<Rightarrow> row option driver" where
  "applying_driver nm = \<lparr>fetch_user = single_account, run_statement = apply_statement nm\<rparr>"

section \<open>The desired state, in the words of the specification\<close>

text \<open>
  The lifecycles \<open>main\<close> accepts for \<open>state\<close> (the \<open>choices\<close> of its argument
  specification).
\<close>

definition choices :: "string list" where
  "choices = [''present'', ''absent'', ''locked'', ''unlocked'']"

text \<open>
  Section 4.2 of the specification names the cases in which nothing is to be done: a missing
  account with the lifecycle \<open>absent\<close>, and an existing account whose lock-state matches
  the lifecycle (status \<open>OPEN\<close> for \<open>present\<close> and \<open>unlocked\<close>, any other status for
  \<open>locked\<close>) and whose stored password hash and tablespaces equal every value that is
  provided. These predicates follow those words; \<open>settled_iff_no_statement\<close> below compares
  them with what \<open>ensure\<close> builds.
\<close>

definition lifecycle_matches :: "string \<Rightarrow> string option \<Rightarrow> bool" where
  "lifecycle_matches st status =
     (if status = Some ''OPEN'' then st = ''present'' \<or> st = ''unlocked'' else st = ''locked'')"

definition provided_matches :: "string option \<Rightarrow> string option \<Rightarrow> bool" where
  "provided_matches desired stored = (if truthy desired then stored = desired else True)"

definition in_desired_state :: "params \<Rightarrow> user option \<Rightarrow> bool" where
  "in_desired_state p usr =
     (case usr of
        None \<Rightarrow> state p = ''absent''
      | Some u \<Rightarrow>
          lifecycle_matches (state p) (user_account_status u)
          \<and> provided_matches (password p) (user_password u)
          \<and> provided_matches (default_tablespace p) (user_default_tablespace u)
          \<and> provided_matches (temporary_tablespace p) (user_temporary_tablespace u))"

section \<open>Statement texts\<close>

lemma starts_with_append: "starts_with (p @ s) p"
  by (induction p) simp_all

lemma executed_append: "executed (xs @ ys) = executed xs @ executed ys"
  by (induction xs rule: executed.induct) simp_all

lemma upper_app_user: "upper ''app_user'' = ''APP_USER''"
  by code_simp

lemma create_is_create: "is_create (getCreateUserSQL nm pw dts tts a)"
proof -
  have "\<exists>rest. getCreateUserSQL nm pw dts tts a = ''CREATE USER '' @ rest"
    by (simp add: getCreateUserSQL_def Let_def)
  then obtain rest where "getCreateUserSQL nm pw dts tts a = ''CREATE USER '' @ rest" ..
  then show ?thesis
    unfolding is_create_def using starts_with_append [of "''CREATE USER ''" rest] by simp
qed

lemma update_is_alter: "is_alter (getUpdateUserSQL nm pw dts tts a)"
proof -
  have "\<exists>rest. getUpdateUserSQL nm pw dts tts a = ''ALTER USER '' @ rest"
    by (simp add: getUpdateUserSQL_def Let_def)
  then obtain rest where "getUpdateUserSQL nm pw dts tts a = ''ALTER USER '' @ rest" ..
  then show ?thesis
    unfolding is_alter_def using starts_with_append [of "''ALTER USER ''" rest] by simp
qed

lemma drop_is_drop: "is_drop (getDropUserSQL nm)"
  unfolding is_drop_def getDropUserSQL_def
  using starts_with_append [of "''DROP USER ''" "dquote @ nm @ dquote @ '' CASCADE''"] by simp

text \<open>
  The \<open>ALTER\<close> built for a lock-state change: \<open>getUpdateUserSQL\<close> drops its
  \<open>account_status\<close> argument, so the text carries no \<open>ACCOUNT\<close> clause, whereas
  \<open>getCreateUserSQL\<close> appends one.
\<close>

lemma update_ignores_account_status:
  "getUpdateUserSQL nm None None None a = ''ALTER USER '' @ nm"
  by (simp add: getUpdateUserSQL_def truthy_def)

lemma update_password_text:
  "truthy pw \<Longrightarrow> getUpdateUserSQL nm pw None None None =
     ''ALTER USER '' @ nm @ '' IDENTIFIED BY VALUES '' @ squote @ py_str pw @ squote"
  by (simp add: getUpdateUserSQL_def truthy_def)

lemma update_default_tablespace_text:
  "truthy dts \<Longrightarrow> getUpdateUserSQL nm None dts None None =
     ''ALTER USER '' @ nm @ '' DEFAULT TABLESPACE '' @ py_str dts"
  by (simp add: getUpdateUserSQL_def truthy_def)

lemma update_temporary_tablespace_text:
  "truthy tts \<Longrightarrow> getUpdateUserSQL nm None None tts None =
     ''ALTER USER '' @ nm @ '' TEMPORARY TABLESPACE '' @ py_str tts"
  by (simp add: getUpdateUserSQL_def truthy_def)

lemma ensure_sql_kind:
  assumes "ensure_sql p nm usr = Some s"
  shows "is_create s \<or> is_alter s \<or> is_drop s"
proof (cases usr)
  case None
  with assms show ?thesis
    by (auto simp: ensure_sql_def create_is_create split: if_splits)
next
  case (Some u)
  with assms show ?thesis
    by (auto simp: ensure_sql_def Let_def update_is_alter drop_is_drop split: if_splits)
qed

lemma kind_nonempty: "is_create s \<or> is_alter s \<or> is_drop s \<Longrightarrow> s \<noteq> []"
  by (auto simp: is_create_def is_alter_def is_drop_def)

lemma ensure_sql_truthy: "truthy (ensure_sql p nm usr) = (ensure_sql p nm usr \<noteq> None)"
proof (cases "ensure_sql p nm usr")
  case None
  then show ?thesis by (simp add: truthy_def)
next
  case (Some s)
  then show ?thesis using kind_nonempty [OF ensure_sql_kind [OF Some]] by (simp add: truthy_def)
qed

section \<open>The four ways a pass can go\<close>

lemma ensure_read_fails:
  assumes "fetch_user drv (db con) (upper (name p)) = Inl e"
  shows "ensure drv p con =
    (Inl (NameError ''module''), con\<lparr>trace := trace con @ [Query (upper (name p))]\<rparr>)"
  using assms by (simp add: ensure_def getUser_def Let_def)

lemma ensure_no_statement:
  assumes "fetch_user drv (db con) (upper (name p)) = Inr r"
    and "ensure_sql p (upper (name p)) (user_of_row (upper (name p)) r) = None"
  shows "ensure drv p con =
    (Inr (False, user_of_row (upper (name p)) r),
     con\<lparr>trace := trace con @ [Query (upper (name p)), Query (upper (name p))]\<rparr>)"
  using assms by (simp add: ensure_def ensure_return_def getUser_def Let_def truthy_def)

lemma ensure_statement_fails:
  assumes "fetch_user drv (db con) (upper (name p)) = Inr r"
    and "ensure_sql p (upper (name p)) (user_of_row (upper (name p)) r) = Some sql"
    and "run_statement drv (db con) sql = Inl e"
  shows "ensure drv p con =
    (Inl (NameError ''module''),
     con\<lparr>trace := trace con @ [Query (upper (name p)), Execute sql]\<rparr>)"
proof -
  have "truthy (ensure_sql p (upper (name p)) (user_of_row (upper (name p)) r))"
    using assms(2) ensure_sql_truthy [of p "upper (name p)" "user_of_row (upper (name p)) r"]
    by simp
  with assms show ?thesis
    by (simp add: ensure_def executeSQL_def getUser_def Let_def py_str_def)
qed

lemma ensure_statement_runs:
  assumes "fetch_user drv (db con) (upper (name p)) = Inr r"
    and "ensure_sql p (upper (name p)) (user_of_row (upper (name p)) r) = Some sql"
    and "run_statement drv (db con) sql = Inr d"
  shows "ensure drv p con =
    (case fetch_user drv d (upper (name p)) of
       Inl e \<Rightarrow> Inl (NameError ''module'')
     | Inr r' \<Rightarrow> Inr (True, user_of_row (upper (name p)) r'),
     con\<lparr>db := d,
         trace := trace con @ [Query (upper (name p)), Execute sql, Query (upper (name p))]\<rparr>)"
proof -
  have "truthy (ensure_sql p (upper (name p)) (user_of_row (upper (name p)) r))"
    using assms(2) ensure_sql_truthy [of p "upper (name p)" "user_of_row (upper (name p)) r"]
    by simp
  with assms show ?thesis
    by (simp add: ensure_def ensure_return_def executeSQL_def getUser_def Let_def py_str_def
        split: sum.splits)
qed

text \<open>A pass that returns has just read the record it returns from the database it leaves.\<close>

lemma ensure_returns:
  assumes "ensure drv p con = (Inr (ch, u), c)"
  shows "\<exists>r. fetch_user drv (db c) (upper (name p)) = Inr r \<and> u = user_of_row (upper (name p)) r"
proof (cases "fetch_user drv (db con) (upper (name p))")
  case (Inl e)
  from ensure_read_fails [OF Inl] assms show ?thesis by simp
next
  case (Inr r)
  show ?thesis
  proof (cases "ensure_sql p (upper (name p)) (user_of_row (upper (name p)) r)")
    case None
    from ensure_no_statement [OF Inr None] assms Inr show ?thesis by auto
  next
    case (Some sql)
    show ?thesis
    proof (cases "run_statement drv (db con) sql")
      case (Inl e)
      from ensure_statement_fails [OF Inr Some Inl] assms show ?thesis by simp
    next
      case in_r: (Inr d)
      from ensure_statement_runs [OF Inr Some in_r] assms show ?thesis
        by (auto split: sum.splits)
    qed
  qed
qed

text \<open>
  What a pass that returns has done: with \<open>changed = True\<close> it built a statement, the
  driver ran it on the database the pass started from, and the trace grew by the read, the
  statement and the second read; with \<open>changed = False\<close> it built nothing and the trace grew
  by the two reads.
\<close>

lemma ensure_started:
  assumes "ensure drv p con = (Inr (ch, u), c)"
  shows "\<exists>r. fetch_user drv (db con) (upper (name p)) = Inr r \<and>
    (if ch
     then (\<exists>sql. ensure_sql p (upper (name p)) (user_of_row (upper (name p)) r) = Some sql
             \<and> run_statement drv (db con) sql = Inr (db c)
             \<and> trace c = trace con @ [Query (upper (name p)), Execute sql, Query (upper (name p))])
     else ensure_sql p (upper (name p)) (user_of_row (upper (name p)) r) = None
             \<and> db c = db con \<and> u = user_of_row (upper (name p)) r
             \<and> trace c = trace con @ [Query (upper (name p)), Query (upper (name p))])"
proof (cases "fetch_user drv (db con) (upper (name p))")
  case (Inl e)
  from ensure_read_fails [OF Inl] assms show ?thesis by simp
next
  case (Inr r)
  show ?thesis
  proof (cases "ensure_sql p (upper (name p)) (user_of_row (upper (name p)) r)")
    case None
    from ensure_no_statement [OF Inr None] assms Inr None show ?thesis by auto
  next
    case (Some sql)
    show ?thesis
    proof (cases "run_statement drv (db con) sql")
      case (Inl e)
      from ensure_statement_fails [OF Inr Some Inl] assms show ?thesis by simp
    next
      case in_r: (Inr d)
      from ensure_statement_runs [OF Inr Some in_r] assms
      have "ch" and "db c = d"
        and "trace c = trace con @ [Query (upper (name p)), Execute sql, Query (upper (name p))]"
        by (auto split: sum.splits)
      with Inr Some in_r show ?thesis by simp
    qed
  qed
qed

section \<open>No statement is built exactly in the desired state\<close>

lemma if_Some_eq_None: "((if c then Some x else y) = None) = (\<not> c \<and> y = None)"
  by simp

lemma no_statement_for_existing:
  "(ensure_sql p nm (Some u) = None) =
     ((state p \<noteq> ''absent'' \<and> py_in (state p) (mapAccountStatus (user_account_status u)))
      \<and> provided_matches (password p) (user_password u)
      \<and> provided_matches (default_tablespace p) (user_default_tablespace u)
      \<and> provided_matches (temporary_tablespace p) (user_temporary_tablespace u))"
  unfolding ensure_sql_def Let_def option.case if_Some_eq_None provided_matches_def
  by (cases "truthy (password p)"; cases "truthy (default_tablespace p)";
      cases "truthy (temporary_tablespace p)"; simp; blast)


lemma lock_state_in_words:
  assumes "st \<in> set choices"
  shows "(st \<noteq> ''absent'' \<and> py_in st (mapAccountStatus status)) = lifecycle_matches st status"
proof -
  from assms consider "st = ''present''" | "st = ''absent''" | "st = ''locked''" | "st = ''unlocked''"
    by (auto simp: choices_def)
  then show ?thesis
  proof cases
    case 1
    then show ?thesis by (simp add: py_in_def mapAccountStatus_def lifecycle_matches_def)
  next
    case 2
    then show ?thesis by (simp add: py_in_def mapAccountStatus_def lifecycle_matches_def)
  next
    case 3
    then show ?thesis by (simp add: py_in_def mapAccountStatus_def lifecycle_matches_def)
  next
    case 4
    then show ?thesis by (simp add: py_in_def mapAccountStatus_def lifecycle_matches_def)
  qed
qed

lemma settled_iff_no_statement:
  assumes "state p \<in> set choices"
  shows "(ensure_sql p nm usr = None) = in_desired_state p usr"
proof (cases usr)
  case None
  then show ?thesis by (simp add: ensure_sql_def in_desired_state_def)
next
  case (Some u)
  show ?thesis
    unfolding Some no_statement_for_existing lock_state_in_words [OF assms]
    by (simp add: in_desired_state_def)
qed

section \<open>The statement chosen for an existing account\<close>

text \<open>
  C1. For an existing account whose lock-state matches the desired lifecycle, the field
  checks of \<open>ensure\<close> are three separate \<open>if\<close> statements that each assign \<open>sql\<close>, so
  the last differing field decides the statement: the temporary tablespace before the
  default tablespace before the password hash. Exactly one single-clause \<open>ALTER\<close> is
  built when a provided field differs from the stored one, and none otherwise. A
  password-only \<open>ALTER\<close> is built exactly when the provided hash differs and no provided
  tablespace does.
\<close>

theorem field_diff_last_assignment_wins:
  assumes "state p \<noteq> ''absent''"
    and "py_in (state p) (mapAccountStatus (user_account_status u))"
  shows "ensure_sql p nm (Some u) =
    (if truthy (temporary_tablespace p) \<and> user_temporary_tablespace u \<noteq> temporary_tablespace p
     then Some (''ALTER USER '' @ nm @ '' TEMPORARY TABLESPACE '' @ py_str (temporary_tablespace p))
     else if truthy (default_tablespace p) \<and> user_default_tablespace u \<noteq> default_tablespace p
     then Some (''ALTER USER '' @ nm @ '' DEFAULT TABLESPACE '' @ py_str (default_tablespace p))
     else if truthy (password p) \<and> user_password u \<noteq> password p
     then Some (''ALTER USER '' @ nm @ '' IDENTIFIED BY VALUES '' @ squote
                  @ py_str (password p) @ squote)
     else None)"
  using assms
  by (simp add: ensure_sql_def Let_def update_password_text update_default_tablespace_text
      update_temporary_tablespace_text)

text \<open>
  The theorem at an open account with all three fields differing: the statement is the one
  for the temporary tablespace.
\<close>

theorem field_diff_last_assignment_wins_witness:
  "state \<lparr>name = ''app_user'', password = Some ''B'', state = ''present'',
            default_tablespace = Some ''DATA'', temporary_tablespace = Some ''TEMP2''\<rparr> \<noteq> ''absent''
   \<and> py_in ''present'' (mapAccountStatus (Some ''OPEN''))
   \<and> ensure_sql
        \<lparr>name = ''app_user'', password = Some ''B'', state = ''present'',
           default_tablespace = Some ''DATA'', temporary_tablespace = Some ''TEMP2''\<rparr>
        ''APP_USER''
        (Some \<lparr>user_name = ''APP_USER'', user_default_tablespace = Some ''USERS'',
                 user_temporary_tablespace = Some ''TEMP'', user_password = Some ''A'',
                 user_account_status = Some ''OPEN''\<rparr>)
      = Some ''ALTER USER APP_USER TEMPORARY TABLESPACE TEMP2''"
proof -
  let ?p = "\<lparr>name = ''app_user'', password = Some ''B'', state = ''present'',
            default_tablespace = Some ''DATA'', temporary_tablespace = Some ''TEMP2''\<rparr>"
  let ?u = "\<lparr>user_name = ''APP_USER'', user_default_tablespace = Some ''USERS'',
                 user_temporary_tablespace = Some ''TEMP'', user_password = Some ''A'',
                 user_account_status = Some ''OPEN''\<rparr>"
  have h1: "state ?p \<noteq> ''absent''" by simp
  have h2: "py_in (state ?p) (mapAccountStatus (user_account_status ?u))"
    by (simp add: py_in_def mapAccountStatus_def)
  show ?thesis
    using h1 h2 field_diff_last_assignment_wins [OF h1 h2, of "''APP_USER''"]
    by (simp add: truthy_def py_str_def)
qed

text \<open>
  The order password hash, default tablespace, temporary tablespace does not hold: with
  the stored hash \<open>A\<close> and the desired hash \<open>B\<close>, and the default tablespace differing as
  well, the statement built is the tablespace one, not the password one.
\<close>

theorem password_first_counterexample:
  "ensure_sql
     \<lparr>name = ''app_user'', password = Some ''B'', state = ''present'',
        default_tablespace = Some ''DATA'', temporary_tablespace = None\<rparr>
     ''APP_USER''
     (Some \<lparr>user_name = ''APP_USER'', user_default_tablespace = Some ''USERS'',
              user_temporary_tablespace = Some ''TEMP'', user_password = Some ''A'',
              user_account_status = Some ''OPEN''\<rparr>)
   = Some ''ALTER USER APP_USER DEFAULT TABLESPACE DATA''"
  by (simp add: ensure_sql_def getUpdateUserSQL_def truthy_def py_str_def py_in_def
      mapAccountStatus_def)

text \<open>
  C2. For an existing account whose lock-state does not match the desired lifecycle (other
  than \<open>absent\<close>), exactly one \<open>ALTER USER\<close> statement is built. It is the statement of the
  lock-state branch, \<open>getUpdateUserSQL(name=name, account_status=mapState(state))\<close>, only
  when no provided password hash or tablespace differs from the stored one; when one does,
  the later field check replaces it and the statement is the single-clause \<open>ALTER\<close> of the
  last differing field.
\<close>

theorem lock_mismatch_statement:
  assumes "state p \<noteq> ''absent''"
    and "\<not> py_in (state p) (mapAccountStatus (user_account_status u))"
  shows "ensure_sql p nm (Some u) =
    Some (if truthy (temporary_tablespace p)
             \<and> user_temporary_tablespace u \<noteq> temporary_tablespace p
          then ''ALTER USER '' @ nm @ '' TEMPORARY TABLESPACE '' @ py_str (temporary_tablespace p)
          else if truthy (default_tablespace p)
                  \<and> user_default_tablespace u \<noteq> default_tablespace p
          then ''ALTER USER '' @ nm @ '' DEFAULT TABLESPACE '' @ py_str (default_tablespace p)
          else if truthy (password p) \<and> user_password u \<noteq> password p
          then ''ALTER USER '' @ nm @ '' IDENTIFIED BY VALUES '' @ squote
                 @ py_str (password p) @ squote
          else getUpdateUserSQL nm None None None (Some (mapState (state p))))"
  using assms
  by (simp add: ensure_sql_def Let_def update_password_text update_default_tablespace_text
      update_temporary_tablespace_text)

text \<open>
  The theorem at an open account to be locked whose fields all match: the statement of the
  lock-state branch is the one built.
\<close>

theorem lock_mismatch_statement_witness:
  "state \<lparr>name = ''app_user'', password = Some ''A'', state = ''locked'',
            default_tablespace = Some ''USERS'', temporary_tablespace = None\<rparr> \<noteq> ''absent''
   \<and> \<not> py_in ''locked'' (mapAccountStatus (Some ''OPEN''))
   \<and> ensure_sql
        \<lparr>name = ''app_user'', password = Some ''A'', state = ''locked'',
           default_tablespace = Some ''USERS'', temporary_tablespace = None\<rparr>
        ''APP_USER''
        (Some \<lparr>user_name = ''APP_USER'', user_default_tablespace = Some ''USERS'',
                 user_temporary_tablespace = Some ''TEMP'', user_password = Some ''A'',
                 user_account_status = Some ''OPEN''\<rparr>)
      = Some (getUpdateUserSQL ''APP_USER'' None None None (Some (mapState ''locked'')))"
proof -
  let ?p = "\<lparr>name = ''app_user'', password = Some ''A'', state = ''locked'',
            default_tablespace = Some ''USERS'', temporary_tablespace = None\<rparr>"
  let ?u = "\<lparr>user_name = ''APP_USER'', user_default_tablespace = Some ''USERS'',
                 user_temporary_tablespace = Some ''TEMP'', user_password = Some ''A'',
                 user_account_status = Some ''OPEN''\<rparr>"
  have h1: "state ?p \<noteq> ''absent''" by simp
  have h2: "\<not> py_in (state ?p) (mapAccountStatus (user_account_status ?u))"
    by (simp add: py_in_def mapAccountStatus_def)
  show ?thesis
    using h1 h2 lock_mismatch_statement [OF h1 h2, of "''APP_USER''"]
    by (simp add: truthy_def)
qed

text \<open>
  The lock-state branch does not take priority over the field checks: for an open account
  to be locked whose default tablespace differs, the statement built changes the
  tablespace.
\<close>

theorem lock_priority_counterexample:
  "ensure_sql
     \<lparr>name = ''app_user'', password = None, state = ''locked'',
        default_tablespace = Some ''DATA'', temporary_tablespace = None\<rparr>
     ''APP_USER''
     (Some \<lparr>user_name = ''APP_USER'', user_default_tablespace = Some ''USERS'',
              user_temporary_tablespace = Some ''TEMP'', user_password = Some ''A'',
              user_account_status = Some ''OPEN''\<rparr>)
   = Some ''ALTER USER APP_USER DEFAULT TABLESPACE DATA''"
  by (simp add: ensure_sql_def getUpdateUserSQL_def truthy_def py_str_def py_in_def
      mapAccountStatus_def)

text \<open>
  C7. For an existing account and the desired lifecycle \<open>absent\<close> the source assigns the
  \<open>DROP\<close> statement first, and the field checks that follow are not guarded by the
  lifecycle: with a provided password hash that differs from the stored one, the statement
  built is a password \<open>ALTER\<close> and the account is not dropped in that pass.
\<close>

theorem drop_replaced_by_password_alter:
  "ensure_sql
     \<lparr>name = ''app_user'', password = Some ''B'', state = ''absent'',
        default_tablespace = None, temporary_tablespace = None\<rparr>
     ''APP_USER''
     (Some \<lparr>user_name = ''APP_USER'', user_default_tablespace = Some ''USERS'',
              user_temporary_tablespace = Some ''TEMP'', user_password = Some ''A'',
              user_account_status = Some ''OPEN''\<rparr>)
   = Some (''ALTER USER APP_USER IDENTIFIED BY VALUES '' @ squote @ ''B'' @ squote)"
  by (simp add: ensure_sql_def getUpdateUserSQL_def getDropUserSQL_def truthy_def py_str_def)

text \<open>
  What is built for \<open>absent\<close> in general: the \<open>DROP\<close> statement, with the name in double
  quotes, only when no provided field differs.
\<close>

lemma absent_statement:
  assumes "state p = ''absent''"
  shows "ensure_sql p nm (Some u) =
    Some (if truthy (temporary_tablespace p)
             \<and> user_temporary_tablespace u \<noteq> temporary_tablespace p
          then ''ALTER USER '' @ nm @ '' TEMPORARY TABLESPACE '' @ py_str (temporary_tablespace p)
          else if truthy (default_tablespace p)
                  \<and> user_default_tablespace u \<noteq> default_tablespace p
          then ''ALTER USER '' @ nm @ '' DEFAULT TABLESPACE '' @ py_str (default_tablespace p)
          else if truthy (password p) \<and> user_password u \<noteq> password p
          then ''ALTER USER '' @ nm @ '' IDENTIFIED BY VALUES '' @ squote
                 @ py_str (password p) @ squote
          else ''DROP USER '' @ dquote @ nm @ dquote @ '' CASCADE'')"
  using assms
  by (simp add: ensure_sql_def Let_def update_password_text update_default_tablespace_text
      update_temporary_tablespace_text getDropUserSQL_def)

section \<open>The statement chosen for a missing account\<close>

text \<open>
  C6. When the account does not exist and the desired lifecycle is not \<open>absent\<close>, the
  statement built is \<open>CREATE USER <name> IDENTIFIED BY VALUES '<hash>'\<close> followed by the
  \<open>DEFAULT TABLESPACE\<close> clause and the \<open>TEMPORARY TABLESPACE\<close> clause, each only when its
  value is provided and not empty, and by the \<open>ACCOUNT\<close> clause, in that order, with
  \<open>UNLOCK\<close> for \<open>present\<close> and \<open>unlocked\<close> and \<open>LOCK\<close> otherwise; the pass executes exactly
  that one statement.
\<close>

theorem create_statement_text:
  assumes "state p \<noteq> ''absent''"
    and "fetch_user drv (db con) (upper (name p)) = Inr None"
  shows "ensure_sql p (upper (name p)) None =
      Some (''CREATE USER '' @ upper (name p) @ '' IDENTIFIED BY VALUES '' @ squote
              @ py_str (password p) @ squote
              @ (if truthy (default_tablespace p)
                 then '' DEFAULT TABLESPACE '' @ py_str (default_tablespace p) else [])
              @ (if truthy (temporary_tablespace p)
                 then '' TEMPORARY TABLESPACE '' @ py_str (temporary_tablespace p) else [])
              @ '' ACCOUNT ''
              @ (if state p = ''present'' \<or> state p = ''unlocked'' then ''UNLOCK'' else ''LOCK''))
    \<and> executed (trace (snd (ensure drv p con))) =
        executed (trace con) @
        [''CREATE USER '' @ upper (name p) @ '' IDENTIFIED BY VALUES '' @ squote
              @ py_str (password p) @ squote
              @ (if truthy (default_tablespace p)
                 then '' DEFAULT TABLESPACE '' @ py_str (default_tablespace p) else [])
              @ (if truthy (temporary_tablespace p)
                 then '' TEMPORARY TABLESPACE '' @ py_str (temporary_tablespace p) else [])
              @ '' ACCOUNT ''
              @ (if state p = ''present'' \<or> state p = ''unlocked'' then ''UNLOCK'' else ''LOCK'')]"
proof -
  let ?sql = "''CREATE USER '' @ upper (name p) @ '' IDENTIFIED BY VALUES '' @ squote
              @ py_str (password p) @ squote
              @ (if truthy (default_tablespace p)
                 then '' DEFAULT TABLESPACE '' @ py_str (default_tablespace p) else [])
              @ (if truthy (temporary_tablespace p)
                 then '' TEMPORARY TABLESPACE '' @ py_str (temporary_tablespace p) else [])
              @ '' ACCOUNT ''
              @ (if state p = ''present'' \<or> state p = ''unlocked'' then ''UNLOCK'' else ''LOCK'')"
  have built: "ensure_sql p (upper (name p)) None = Some ?sql"
    using assms(1)
    by (simp add: ensure_sql_def getCreateUserSQL_def mapState_def py_in_def truthy_def
        py_str_def Let_def)
  then have built': "ensure_sql p (upper (name p)) (user_of_row (upper (name p)) None) = Some ?sql"
    by (simp add: user_of_row_def)
  have ran: "executed (trace (snd (ensure drv p con))) = executed (trace con) @ [?sql]"
  proof (cases "run_statement drv (db con) ?sql")
    case (Inl e)
    show ?thesis
      using ensure_statement_fails [OF assms(2) built' Inl] by (simp add: executed_append)
  next
    case (Inr d)
    show ?thesis
      using ensure_statement_runs [OF assms(2) built' Inr] by (simp add: executed_append)
  qed
  from built ran show ?thesis ..
qed

text \<open>
  The theorem at a missing account to be created locked, with a default tablespace and no
  temporary one.
\<close>

theorem create_statement_text_witness:
  "executed (trace (snd (ensure idle_driver
     \<lparr>name = ''app_user'', password = Some ''F894844C34402B67'', state = ''locked'',
        default_tablespace = Some ''USERS'', temporary_tablespace = None\<rparr>
     \<lparr>db = None, trace = []\<rparr>)))
   = [''CREATE USER APP_USER IDENTIFIED BY VALUES '' @ squote @ ''F894844C34402B67'' @ squote
        @ '' DEFAULT TABLESPACE USERS ACCOUNT LOCK'']"
proof -
  let ?p = "\<lparr>name = ''app_user'', password = Some ''F894844C34402B67'', state = ''locked'',
        default_tablespace = Some ''USERS'', temporary_tablespace = None\<rparr>"
  let ?con = "\<lparr>db = (None :: row option), trace = []\<rparr>"
  have h1: "state ?p \<noteq> ''absent''" by simp
  have h2: "fetch_user idle_driver (db ?con) (upper (name ?p)) = Inr None"
    by (simp add: idle_driver_def single_account_def)
  show ?thesis
    using create_statement_text [OF h1 h2]
    by (simp add: upper_app_user truthy_def py_str_def)
qed

text \<open>
  C10. When the account does not exist, the desired lifecycle is not \<open>absent\<close> and no
  password hash is provided, a \<open>CREATE\<close> statement is built all the same, and its
  \<open>IDENTIFIED BY VALUES\<close> clause holds the text \<open>None\<close> between the quotes.
\<close>

theorem create_without_password_renders_None:
  assumes "state p \<noteq> ''absent''"
    and "password p = None"
  shows "\<exists>rest. ensure_sql p nm None =
      Some (''CREATE USER '' @ nm @ '' IDENTIFIED BY VALUES '' @ squote @ ''None'' @ squote @ rest)"
  using assms
  by (simp add: ensure_sql_def getCreateUserSQL_def mapState_def py_in_def truthy_def
      py_str_def Let_def)

text \<open>
  The theorem at a missing account to be created with a temporary tablespace and no
  password hash.
\<close>

theorem create_without_password_renders_None_witness:
  "\<exists>rest. ensure_sql
     \<lparr>name = ''app_user'', password = None, state = ''present'',
        default_tablespace = None, temporary_tablespace = Some ''TEMP''\<rparr>
     ''APP_USER'' None
   = Some (''CREATE USER APP_USER IDENTIFIED BY VALUES '' @ squote @ ''None'' @ squote @ rest)"
proof -
  let ?p = "\<lparr>name = ''app_user'', password = None, state = ''present'',
        default_tablespace = None, temporary_tablespace = Some ''TEMP''\<rparr>"
  have h1: "state ?p \<noteq> ''absent''" by simp
  have h2: "password ?p = None" by simp
  show ?thesis
    using create_without_password_renders_None [OF h1 h2, of "''APP_USER''"] by simp
qed

section \<open>A whole pass\<close>

text \<open>
  C8. When the account does not exist and the desired lifecycle is \<open>absent\<close>, no statement
  is built, none is executed, \<open>changed\<close> is false and the record returned is \<open>None\<close>: the
  pass consists of the two reads.
\<close>

theorem missing_and_absent_is_noop:
  assumes "fetch_user drv (db con) (upper (name p)) = Inr None"
    and "state p = ''absent''"
  shows "ensure_sql p (upper (name p)) None = None
    \<and> ensure drv p con =
        (Inr (False, None),
         con\<lparr>trace := trace con @ [Query (upper (name p)), Query (upper (name p))]\<rparr>)
    \<and> executed (trace (snd (ensure drv p con))) = executed (trace con)"
proof -
  have none: "ensure_sql p (upper (name p)) None = None"
    using assms(2) by (simp add: ensure_sql_def)
  then have none': "ensure_sql p (upper (name p)) (user_of_row (upper (name p)) None) = None"
    by (simp add: user_of_row_def)
  have pass: "ensure drv p con =
        (Inr (False, None),
         con\<lparr>trace := trace con @ [Query (upper (name p)), Query (upper (name p))]\<rparr>)"
    using ensure_no_statement [OF assms(1) none'] by (simp add: user_of_row_def)
  then have "executed (trace (snd (ensure drv p con))) = executed (trace con)"
    by (simp add: executed_append)
  with none pass show ?thesis by simp
qed

text \<open>
  The theorem on an empty catalog, with every other parameter provided.
\<close>

theorem missing_and_absent_is_noop_witness:
  "ensure idle_driver
     \<lparr>name = ''app_user'', password = Some ''F894844C34402B67'', state = ''absent'',
        default_tablespace = Some ''USERS'', temporary_tablespace = Some ''TEMP''\<rparr>
     \<lparr>db = None, trace = []\<rparr>
   = (Inr (False, None), \<lparr>db = None, trace = [Query ''APP_USER'', Query ''APP_USER'']\<rparr>)"
proof -
  let ?p = "\<lparr>name = ''app_user'', password = Some ''F894844C34402B67'', state = ''absent'',
        default_tablespace = Some ''USERS'', temporary_tablespace = Some ''TEMP''\<rparr>"
  let ?con = "\<lparr>db = (None :: row option), trace = []\<rparr>"
  have h1: "fetch_user idle_driver (db ?con) (upper (name ?p)) = Inr None"
    by (simp add: idle_driver_def single_account_def)
  have h2: "state ?p = ''absent''" by simp
  show ?thesis
    using missing_and_absent_is_noop [OF h1 h2] by (simp add: upper_app_user)
qed

text \<open>
  C4. Whatever the driver, the parameters and the connection, a pass adds to the trace at
  most one executed statement, and that statement is a \<open>CREATE USER\<close>, an \<open>ALTER USER\<close> or
  a \<open>DROP USER\<close>.
\<close>

theorem at_most_one_statement:
  "\<exists>evs. trace (snd (ensure drv p con)) = trace con @ evs \<and>
      (executed evs = [] \<or>
       (\<exists>s. executed evs = [s] \<and> (is_create s \<or> is_alter s \<or> is_drop s)))"
proof (cases "fetch_user drv (db con) (upper (name p))")
  case (Inl e)
  have "trace (snd (ensure drv p con)) = trace con @ [Query (upper (name p))]"
    using ensure_read_fails [OF Inl] by simp
  moreover have "executed [Query (upper (name p))] = []" by simp
  ultimately show ?thesis by blast
next
  case (Inr r)
  show ?thesis
  proof (cases "ensure_sql p (upper (name p)) (user_of_row (upper (name p)) r)")
    case None
    have "trace (snd (ensure drv p con))
          = trace con @ [Query (upper (name p)), Query (upper (name p))]"
      using ensure_no_statement [OF Inr None] by simp
    moreover have "executed [Query (upper (name p)), Query (upper (name p))] = []" by simp
    ultimately show ?thesis by blast
  next
    case (Some sql)
    have kind: "is_create sql \<or> is_alter sql \<or> is_drop sql"
      using ensure_sql_kind [OF Some] .
    show ?thesis
    proof (cases "run_statement drv (db con) sql")
      case (Inl e)
      have "trace (snd (ensure drv p con)) = trace con @ [Query (upper (name p)), Execute sql]"
        using ensure_statement_fails [OF Inr Some Inl] by simp
      moreover have "executed [Query (upper (name p)), Execute sql] = [sql]" by simp
      ultimately show ?thesis using kind by blast
    next
      case in_r: (Inr d)
      have "trace (snd (ensure drv p con))
            = trace con @ [Query (upper (name p)), Execute sql, Query (upper (name p))]"
        using ensure_statement_runs [OF Inr Some in_r] by simp
      moreover have "executed [Query (upper (name p)), Execute sql, Query (upper (name p))] = [sql]"
        by simp
      ultimately show ?thesis using kind by blast
    qed
  qed
qed

text \<open>
  The theorem on an empty catalog and an account to be created: the one statement is the
  \<open>CREATE\<close>.
\<close>

theorem at_most_one_statement_witness:
  "\<exists>evs. trace (snd (ensure idle_driver
       \<lparr>name = ''app_user'', password = Some ''F894844C34402B67'', state = ''present'',
          default_tablespace = None, temporary_tablespace = None\<rparr>
       \<lparr>db = None, trace = []\<rparr>)) = [] @ evs \<and>
      (executed evs = [] \<or>
       (\<exists>s. executed evs = [s] \<and> (is_create s \<or> is_alter s \<or> is_drop s)))"
  using at_most_one_statement [of idle_driver
       "\<lparr>name = ''app_user'', password = Some ''F894844C34402B67'', state = ''present'',
          default_tablespace = None, temporary_tablespace = None\<rparr>"
       "\<lparr>db = None, trace = []\<rparr>"]
  by simp

text \<open>
  C5. In a pass that returns, \<open>changed\<close> is true exactly when the first read succeeded, a
  statement was built from it and the driver executed it without error; the statement then
  stands in the trace between the two reads and the connection holds the database the driver
  returned. Conversely, when the statement built runs and the second read succeeds, the pass
  returns \<open>changed = True\<close> with the record of that read. When the account read calls for no
  statement, \<open>changed\<close> is false, the database is untouched and the record returned is the
  one a second read of the account gives.
\<close>

theorem changed_iff_statement_ran:
  "(ensure drv p con = (Inr (ch, u), c) \<longrightarrow>
      ch = (\<exists>r sql d. fetch_user drv (db con) (upper (name p)) = Inr r
              \<and> ensure_sql p (upper (name p)) (user_of_row (upper (name p)) r) = Some sql
              \<and> run_statement drv (db con) sql = Inr d)
      \<and> (\<exists>r. fetch_user drv (db con) (upper (name p)) = Inr r \<and>
           (if ch
            then (\<exists>sql. ensure_sql p (upper (name p)) (user_of_row (upper (name p)) r) = Some sql
                    \<and> run_statement drv (db con) sql = Inr (db c)
                    \<and> trace c = trace con @
                        [Query (upper (name p)), Execute sql, Query (upper (name p))])
            else ensure_sql p (upper (name p)) (user_of_row (upper (name p)) r) = None
                    \<and> db c = db con \<and> u = user_of_row (upper (name p)) r
                    \<and> trace c = trace con @ [Query (upper (name p)), Query (upper (name p))])))
   \<and> (fetch_user drv (db con) (upper (name p)) = Inr r1
        \<and> ensure_sql p (upper (name p)) (user_of_row (upper (name p)) r1) = Some sql1
        \<and> run_statement drv (db con) sql1 = Inr d1
        \<and> fetch_user drv d1 (upper (name p)) = Inr r2 \<longrightarrow>
      ensure drv p con =
        (Inr (True, user_of_row (upper (name p)) r2),
         con\<lparr>db := d1,
             trace := trace con @
               [Query (upper (name p)), Execute sql1, Query (upper (name p))]\<rparr>))
   \<and> (fetch_user drv (db con) (upper (name p)) = Inr r'
        \<and> ensure_sql p (upper (name p)) (user_of_row (upper (name p)) r') = None \<longrightarrow>
      ensure drv p con =
        (Inr (False, user_of_row (upper (name p)) r'),
         con\<lparr>trace := trace con @ [Query (upper (name p)), Query (upper (name p))]\<rparr>)
      \<and> fst (getUser drv (snd (getUser drv con (upper (name p)))) (upper (name p)))
          = Inr (user_of_row (upper (name p)) r'))"
proof -
  let ?nm = "upper (name p)"
  have returned: "ensure drv p con = (Inr (ch, u), c) \<longrightarrow>
      ch = (\<exists>r sql d. fetch_user drv (db con) ?nm = Inr r
              \<and> ensure_sql p ?nm (user_of_row ?nm r) = Some sql
              \<and> run_statement drv (db con) sql = Inr d)
      \<and> (\<exists>r. fetch_user drv (db con) ?nm = Inr r \<and>
           (if ch
            then (\<exists>sql. ensure_sql p ?nm (user_of_row ?nm r) = Some sql
                    \<and> run_statement drv (db con) sql = Inr (db c)
                    \<and> trace c = trace con @ [Query ?nm, Execute sql, Query ?nm])
            else ensure_sql p ?nm (user_of_row ?nm r) = None
                    \<and> db c = db con \<and> u = user_of_row ?nm r
                    \<and> trace c = trace con @ [Query ?nm, Query ?nm]))"
  proof
    assume ret: "ensure drv p con = (Inr (ch, u), c)"
    from ensure_started [OF ret] obtain r
      where r: "fetch_user drv (db con) ?nm = Inr r"
        and start: "if ch
            then (\<exists>sql. ensure_sql p ?nm (user_of_row ?nm r) = Some sql
                    \<and> run_statement drv (db con) sql = Inr (db c)
                    \<and> trace c = trace con @ [Query ?nm, Execute sql, Query ?nm])
            else ensure_sql p ?nm (user_of_row ?nm r) = None
                    \<and> db c = db con \<and> u = user_of_row ?nm r
                    \<and> trace c = trace con @ [Query ?nm, Query ?nm]"
      by blast
    have "ch = (\<exists>r sql d. fetch_user drv (db con) ?nm = Inr r
              \<and> ensure_sql p ?nm (user_of_row ?nm r) = Some sql
              \<and> run_statement drv (db con) sql = Inr d)"
      using r start by (cases ch) auto
    moreover have "\<exists>r. fetch_user drv (db con) ?nm = Inr r \<and>
           (if ch
            then (\<exists>sql. ensure_sql p ?nm (user_of_row ?nm r) = Some sql
                    \<and> run_statement drv (db con) sql = Inr (db c)
                    \<and> trace c = trace con @ [Query ?nm, Execute sql, Query ?nm])
            else ensure_sql p ?nm (user_of_row ?nm r) = None
                    \<and> db c = db con \<and> u = user_of_row ?nm r
                    \<and> trace c = trace con @ [Query ?nm, Query ?nm])"
      using r start by blast
    ultimately show "ch = (\<exists>r sql d. fetch_user drv (db con) ?nm = Inr r
              \<and> ensure_sql p ?nm (user_of_row ?nm r) = Some sql
              \<and> run_statement drv (db con) sql = Inr d)
      \<and> (\<exists>r. fetch_user drv (db con) ?nm = Inr r \<and>
           (if ch
            then (\<exists>sql. ensure_sql p ?nm (user_of_row ?nm r) = Some sql
                    \<and> run_statement drv (db con) sql = Inr (db c)
                    \<and> trace c = trace con @ [Query ?nm, Execute sql, Query ?nm])
            else ensure_sql p ?nm (user_of_row ?nm r) = None
                    \<and> db c = db con \<and> u = user_of_row ?nm r
                    \<and> trace c = trace con @ [Query ?nm, Query ?nm]))"
      by (rule conjI)
  qed
  have ran: "fetch_user drv (db con) ?nm = Inr r1
        \<and> ensure_sql p ?nm (user_of_row ?nm r1) = Some sql1
        \<and> run_statement drv (db con) sql1 = Inr d1
        \<and> fetch_user drv d1 ?nm = Inr r2 \<longrightarrow>
      ensure drv p con =
        (Inr (True, user_of_row ?nm r2),
         con\<lparr>db := d1, trace := trace con @ [Query ?nm, Execute sql1, Query ?nm]\<rparr>)"
    using ensure_statement_runs [of drv con p r1 sql1 d1] by simp
  have reread: "fetch_user drv (db con) ?nm = Inr r'
        \<and> ensure_sql p ?nm (user_of_row ?nm r') = None \<longrightarrow>
      ensure drv p con =
        (Inr (False, user_of_row ?nm r'), con\<lparr>trace := trace con @ [Query ?nm, Query ?nm]\<rparr>)
      \<and> fst (getUser drv (snd (getUser drv con ?nm)) ?nm) = Inr (user_of_row ?nm r')"
    using ensure_no_statement [of drv con p r'] by (simp add: getUser_def)
  from returned ran reread show ?thesis by (intro conjI)
qed

text \<open>
  The theorem on a catalog whose account has the default tablespace \<open>USERS\<close>, with \<open>DATA\<close>
  desired and a driver that applies the statement: the pass returns \<open>changed = True\<close> and
  the updated record, so a statement was built and ran; on the updated catalog the pass
  returns \<open>changed = False\<close>.
\<close>

theorem changed_iff_statement_ran_witness:
  "ensure (applying_driver ''APP_USER'')
     \<lparr>name = ''app_user'', password = None, state = ''present'',
        default_tablespace = Some ''DATA'', temporary_tablespace = None\<rparr>
     \<lparr>db = Some (Some ''USERS'', Some ''TEMP'', Some ''A'', Some ''OPEN''), trace = []\<rparr>
   = (Inr (True,
           Some \<lparr>user_name = ''APP_USER'', user_default_tablespace = Some ''DATA'',
                  user_temporary_tablespace = Some ''TEMP'', user_password = Some ''A'',
                  user_account_status = Some ''OPEN''\<rparr>),
      \<lparr>db = Some (Some ''DATA'', Some ''TEMP'', Some ''A'', Some ''OPEN''),
         trace = [Query ''APP_USER'',
                  Execute ''ALTER USER APP_USER DEFAULT TABLESPACE DATA'',
                  Query ''APP_USER'']\<rparr>)
   \<and> (\<exists>r sql d.
         fetch_user (applying_driver ''APP_USER'')
           (Some (Some ''USERS'', Some ''TEMP'', Some ''A'', Some ''OPEN'')) ''APP_USER'' = Inr r
         \<and> ensure_sql
              \<lparr>name = ''app_user'', password = None, state = ''present'',
                 default_tablespace = Some ''DATA'', temporary_tablespace = None\<rparr>
              ''APP_USER'' (user_of_row ''APP_USER'' r) = Some sql
         \<and> run_statement (applying_driver ''APP_USER'')
              (Some (Some ''USERS'', Some ''TEMP'', Some ''A'', Some ''OPEN'')) sql = Inr d)
   \<and> ensure (applying_driver ''APP_USER'')
     \<lparr>name = ''app_user'', password = None, state = ''present'',
        default_tablespace = Some ''DATA'', temporary_tablespace = None\<rparr>
     \<lparr>db = Some (Some ''DATA'', Some ''TEMP'', Some ''A'', Some ''OPEN''), trace = []\<rparr>
   = (Inr (False,
           Some \<lparr>user_name = ''APP_USER'', user_default_tablespace = Some ''DATA'',
                  user_temporary_tablespace = Some ''TEMP'', user_password = Some ''A'',
                  user_account_status = Some ''OPEN''\<rparr>),
      \<lparr>db = Some (Some ''DATA'', Some ''TEMP'', Some ''A'', Some ''OPEN''),
         trace = [Query ''APP_USER'', Query ''APP_USER'']\<rparr>)"
proof -
  let ?drv = "applying_driver ''APP_USER''"
  let ?p = "\<lparr>name = ''app_user'', password = None, state = ''present'',
        default_tablespace = Some ''DATA'', temporary_tablespace = None\<rparr>"
  let ?r0 = "Some (Some ''USERS'', Some ''TEMP'', Some ''A'', Some ''OPEN'') :: row option"
  let ?r1 = "Some (Some ''DATA'', Some ''TEMP'', Some ''A'', Some ''OPEN'') :: row option"
  let ?con = "\<lparr>db = ?r0, trace = []\<rparr>"
  let ?con1 = "\<lparr>db = ?r1, trace = []\<rparr>"
  let ?sql = "''ALTER USER APP_USER DEFAULT TABLESPACE DATA''"
  let ?u1 = "Some \<lparr>user_name = ''APP_USER'', user_default_tablespace = Some ''DATA'',
                  user_temporary_tablespace = Some ''TEMP'', user_password = Some ''A'',
                  user_account_status = Some ''OPEN''\<rparr>"
  let ?c1 = "\<lparr>db = ?r1, trace = [Query ''APP_USER'', Execute ?sql, Query ''APP_USER'']\<rparr>"
  have fetch0: "fetch_user ?drv (db ?con) (upper (name ?p)) = Inr ?r0"
    by (simp add: applying_driver_def single_account_def)
  have built: "ensure_sql ?p (upper (name ?p)) (user_of_row (upper (name ?p)) ?r0) = Some ?sql"
    by (simp add: ensure_sql_def user_of_row_def getUpdateUserSQL_def truthy_def py_str_def
        py_in_def mapAccountStatus_def upper_app_user)
  have ran: "run_statement ?drv (db ?con) ?sql = Inr ?r1"
    by (simp add: applying_driver_def apply_statement_def)
  have fetch1: "fetch_user ?drv ?r1 (upper (name ?p)) = Inr ?r1"
    by (simp add: applying_driver_def single_account_def)
  have settled: "ensure_sql ?p (upper (name ?p)) (user_of_row (upper (name ?p)) ?r1) = None"
    by (simp add: ensure_sql_def user_of_row_def truthy_def py_in_def mapAccountStatus_def
        upper_app_user)
  have pass: "ensure ?drv ?p ?con = (Inr (True, ?u1), ?c1)"
    using changed_iff_statement_ran [of ?drv ?p ?con True ?u1 ?c1 ?r0 ?sql ?r1 ?r1 ?r0]
      fetch0 built ran fetch1
    by (simp add: upper_app_user user_of_row_def)
  have iff: "\<exists>r sql d. fetch_user ?drv ?r0 ''APP_USER'' = Inr r
         \<and> ensure_sql ?p ''APP_USER'' (user_of_row ''APP_USER'' r) = Some sql
         \<and> run_statement ?drv ?r0 sql = Inr d"
    using changed_iff_statement_ran [of ?drv ?p ?con True ?u1 ?c1 ?r0 ?sql ?r1 ?r1 ?r0] pass
    by (simp add: upper_app_user)
  have noop: "ensure ?drv ?p ?con1
      = (Inr (False, ?u1), \<lparr>db = ?r1, trace = [Query ''APP_USER'', Query ''APP_USER'']\<rparr>)"
    using changed_iff_statement_ran [of ?drv ?p ?con1 False ?u1 ?con1 ?r1 ?sql ?r1 ?r1 ?r1]
      fetch1 settled
    by (simp add: upper_app_user user_of_row_def)
  from pass iff noop show ?thesis by (intro conjI)
qed

text \<open>
  C9. When the driver refuses the statement that was built, the handler in \<open>executeSQL\<close>
  looks up the unbound name \<open>module\<close>: the pass ends with \<open>NameError\<close>, and no message made
  of the statement text and the driver's message is produced. The trace ends with the
  refused statement, so the account is not read again. Here the account exists, the
  lifecycle is \<open>absent\<close> and the driver refuses the \<open>DROP\<close>.
\<close>

theorem refused_statement_raises_NameError:
  "ensure refusing_driver
     \<lparr>name = ''app_user'', password = None, state = ''absent'',
        default_tablespace = None, temporary_tablespace = None\<rparr>
     \<lparr>db = Some (Some ''USERS'', Some ''TEMP'', Some ''A'', Some ''OPEN''), trace = []\<rparr>
   = (Inl (NameError ''module''),
      \<lparr>db = Some (Some ''USERS'', Some ''TEMP'', Some ''A'', Some ''OPEN''),
         trace = [Query ''APP_USER'',
                  Execute (''DROP USER '' @ dquote @ ''APP_USER'' @ dquote @ '' CASCADE'')]\<rparr>)
   \<and> fst (ensure refusing_driver
          \<lparr>name = ''app_user'', password = None, state = ''absent'',
             default_tablespace = None, temporary_tablespace = None\<rparr>
          \<lparr>db = Some (Some ''USERS'', Some ''TEMP'', Some ''A'', Some ''OPEN''), trace = []\<rparr>)
       \<noteq> Inl (FailJson (''DROP USER '' @ dquote @ ''APP_USER'' @ dquote
                         @ '' CASCADE: ORA-01031: insufficient privileges''))"
  by (simp add: ensure_def executeSQL_def getUser_def user_of_row_def ensure_sql_def
      getDropUserSQL_def truthy_def py_str_def refusing_driver_def single_account_def
      reject_statement_def upper_app_user Let_def)

text \<open>
  C3. Let the lifecycle be one of the four choices and let a first pass return. It yields
  \<open>changed = True\<close> exactly when the account read at its start is not in the desired state.
  A second pass with the same parameters yields \<open>changed = False\<close>, with the same record
  and no statement executed, exactly when the record the first pass returned is in the
  desired state; that is so whenever the first pass yielded \<open>changed = False\<close>. When that
  record is not in the desired state, the second pass does not return \<open>changed = False\<close>.
\<close>

theorem second_pass_settles_iff_desired_state_reached:
  assumes "state p \<in> set choices"
    and "ensure drv p con = (Inr (ch, u), c1)"
  shows "(\<exists>r. fetch_user drv (db con) (upper (name p)) = Inr r
            \<and> ch = (\<not> in_desired_state p (user_of_row (upper (name p)) r)))
       \<and> (\<not> ch \<longrightarrow> in_desired_state p u)
       \<and> (in_desired_state p u \<longrightarrow>
            ensure drv p c1 =
              (Inr (False, u),
               c1\<lparr>trace := trace c1 @ [Query (upper (name p)), Query (upper (name p))]\<rparr>))
       \<and> (\<not> in_desired_state p u \<longrightarrow>
            (\<forall>u' c2. ensure drv p c1 \<noteq> (Inr (False, u'), c2)))"
proof -
  let ?nm = "upper (name p)"
  from ensure_started [OF assms(2)] obtain r0
    where r0: "fetch_user drv (db con) ?nm = Inr r0"
      and start: "if ch
        then (\<exists>sql. ensure_sql p ?nm (user_of_row ?nm r0) = Some sql
             \<and> run_statement drv (db con) sql = Inr (db c1)
             \<and> trace c1 = trace con @ [Query ?nm, Execute sql, Query ?nm])
        else ensure_sql p ?nm (user_of_row ?nm r0) = None
             \<and> db c1 = db con \<and> u = user_of_row ?nm r0
             \<and> trace c1 = trace con @ [Query ?nm, Query ?nm]"
    by blast
  have flag: "ch = (\<not> in_desired_state p (user_of_row ?nm r0))"
    using start settled_iff_no_statement [OF assms(1), of ?nm "user_of_row ?nm r0"]
    by (cases ch) auto
  have kept: "\<not> ch \<longrightarrow> in_desired_state p u"
    using start flag by (cases ch) auto
  from ensure_returns [OF assms(2)] obtain r
    where r: "fetch_user drv (db c1) ?nm = Inr r" and u: "u = user_of_row ?nm r"
    by blast
  have again: "in_desired_state p u \<longrightarrow>
            ensure drv p c1 = (Inr (False, u), c1\<lparr>trace := trace c1 @ [Query ?nm, Query ?nm]\<rparr>)"
    using ensure_no_statement [OF r] u settled_iff_no_statement [OF assms(1), of ?nm u]
    by simp
  have never: "\<not> in_desired_state p u \<longrightarrow> (\<forall>u' c2. ensure drv p c1 \<noteq> (Inr (False, u'), c2))"
  proof (intro impI allI notI)
    fix u' c2
    assume not_there: "\<not> in_desired_state p u"
      and second: "ensure drv p c1 = (Inr (False, u'), c2)"
    from ensure_started [OF second] r
    have "ensure_sql p ?nm (user_of_row ?nm r) = None" by auto
    with u settled_iff_no_statement [OF assms(1), of ?nm u] not_there show False by simp
  qed
  from r0 flag kept again never show ?thesis by blast
qed

text \<open>
  The theorem on a catalog whose account differs from the desired state in the default
  tablespace only, with a driver that applies the statement: the first pass yields
  \<open>changed = True\<close>, the record it returns is in the desired state, and the second pass
  yields \<open>changed = False\<close>.
\<close>

theorem second_pass_settles_iff_desired_state_reached_witness:
  "ensure (applying_driver ''APP_USER'')
     \<lparr>name = ''app_user'', password = Some ''A'', state = ''present'',
        default_tablespace = Some ''DATA'', temporary_tablespace = None\<rparr>
     \<lparr>db = Some (Some ''USERS'', Some ''TEMP'', Some ''A'', Some ''OPEN''), trace = []\<rparr>
   = (Inr (True,
           Some \<lparr>user_name = ''APP_USER'', user_default_tablespace = Some ''DATA'',
                  user_temporary_tablespace = Some ''TEMP'', user_password = Some ''A'',
                  user_account_status = Some ''OPEN''\<rparr>),
      \<lparr>db = Some (Some ''DATA'', Some ''TEMP'', Some ''A'', Some ''OPEN''),
         trace = [Query ''APP_USER'',
                  Execute ''ALTER USER APP_USER DEFAULT TABLESPACE DATA'',
                  Query ''APP_USER'']\<rparr>)
   \<and> ensure (applying_driver ''APP_USER'')
     \<lparr>name = ''app_user'', password = Some ''A'', state = ''present'',
        default_tablespace = Some ''DATA'', temporary_tablespace = None\<rparr>
     \<lparr>db = Some (Some ''DATA'', Some ''TEMP'', Some ''A'', Some ''OPEN''),
        trace = [Query ''APP_USER'',
                 Execute ''ALTER USER APP_USER DEFAULT TABLESPACE DATA'',
                 Query ''APP_USER'']\<rparr>
   = (Inr (False,
           Some \<lparr>user_name = ''APP_USER'', user_default_tablespace = Some ''DATA'',
                  user_temporary_tablespace = Some ''TEMP'', user_password = Some ''A'',
                  user_account_status = Some ''OPEN''\<rparr>),
      \<lparr>db = Some (Some ''DATA'', Some ''TEMP'', Some ''A'', Some ''OPEN''),
         trace = [Query ''APP_USER'',
                  Execute ''ALTER USER APP_USER DEFAULT TABLESPACE DATA'',
                  Query ''APP_USER'', Query ''APP_USER'', Query ''APP_USER'']\<rparr>)"
proof -
  let ?p = "\<lparr>name = ''app_user'', password = Some ''A'', state = ''present'',
        default_tablespace = Some ''DATA'', temporary_tablespace = None\<rparr>"
  let ?con = "\<lparr>db = Some (Some ''USERS'', Some ''TEMP'', Some ''A'', Some ''OPEN''),
                 trace = []\<rparr> :: row option conn"
  let ?u = "Some \<lparr>user_name = ''APP_USER'', user_default_tablespace = Some ''DATA'',
                  user_temporary_tablespace = Some ''TEMP'', user_password = Some ''A'',
                  user_account_status = Some ''OPEN''\<rparr>"
  let ?c1 = "\<lparr>db = Some (Some ''DATA'', Some ''TEMP'', Some ''A'', Some ''OPEN''),
         trace = [Query ''APP_USER'',
                  Execute ''ALTER USER APP_USER DEFAULT TABLESPACE DATA'',
                  Query ''APP_USER'']\<rparr> :: row option conn"
  have h1: "state ?p \<in> set choices" by (simp add: choices_def)
  have h2: "ensure (applying_driver ''APP_USER'') ?p ?con = (Inr (True, ?u), ?c1)"
    by (simp add: ensure_def ensure_return_def executeSQL_def getUser_def user_of_row_def
        ensure_sql_def getUpdateUserSQL_def truthy_def py_str_def py_in_def mapAccountStatus_def
        applying_driver_def single_account_def apply_statement_def upper_app_user Let_def)
  have h3: "in_desired_state ?p ?u"
    by (simp add: in_desired_state_def lifecycle_matches_def provided_matches_def truthy_def)
  show ?thesis
    using h2 h3 second_pass_settles_iff_desired_state_reached [OF h1 h2]
    by (simp add: upper_app_user)
qed

text \<open>
  Two passes do not always yield \<open>changed = True\<close> and then \<open>changed = False\<close>: when both
  tablespaces differ, the first pass changes the temporary tablespace only, and the second
  pass, which changes the default tablespace, yields \<open>changed = True\<close> again.
\<close>

theorem second_pass_changes_again_counterexample:
  "ensure (applying_driver ''APP_USER'')
     \<lparr>name = ''app_user'', password = None, state = ''present'',
        default_tablespace = Some ''DATA'', temporary_tablespace = Some ''TEMP2''\<rparr>
     \<lparr>db = Some (Some ''USERS'', Some ''TEMP'', Some ''A'', Some ''OPEN''), trace = []\<rparr>
   = (Inr (True,
           Some \<lparr>user_name = ''APP_USER'', user_default_tablespace = Some ''USERS'',
                  user_temporary_tablespace = Some ''TEMP2'', user_password = Some ''A'',
                  user_account_status = Some ''OPEN''\<rparr>),
      \<lparr>db = Some (Some ''USERS'', Some ''TEMP2'', Some ''A'', Some ''OPEN''),
         trace = [Query ''APP_USER'',
                  Execute ''ALTER USER APP_USER TEMPORARY TABLESPACE TEMP2'',
                  Query ''APP_USER'']\<rparr>)
   \<and> ensure (applying_driver ''APP_USER'')
     \<lparr>name = ''app_user'', password = None, state = ''present'',
        default_tablespace = Some ''DATA'', temporary_tablespace = Some ''TEMP2''\<rparr>
     \<lparr>db = Some (Some ''USERS'', Some ''TEMP2'', Some ''A'', Some ''OPEN''),
        trace = [Query ''APP_USER'',
                 Execute ''ALTER USER APP_USER TEMPORARY TABLESPACE TEMP2'',
                 Query ''APP_USER'']\<rparr>
   = (Inr (True,
           Some \<lparr>user_name = ''APP_USER'', user_default_tablespace = Some ''DATA'',
                  user_temporary_tablespace = Some ''TEMP2'', user_password = Some ''A'',
                  user_account_status = Some ''OPEN''\<rparr>),
      \<lparr>db = Some (Some ''DATA'', Some ''TEMP2'', Some ''A'', Some ''OPEN''),
         trace = [Query ''APP_USER'',
                  Execute ''ALTER USER APP_USER TEMPORARY TABLESPACE TEMP2'',
                  Query ''APP_USER'',
                  Query ''APP_USER'',
                  Execute ''ALTER USER APP_USER DEFAULT TABLESPACE DATA'',
                  Query ''APP_USER'']\<rparr>)"
  by (simp add: ensure_def ensure_return_def executeSQL_def getUser_def user_of_row_def
      ensure_sql_def getUpdateUserSQL_def truthy_def py_str_def py_in_def mapAccountStatus_def
      applying_driver_def single_account_def apply_statement_def upper_app_user Let_def)

end
